theory Spec2Isabelle
  imports Main "HOL-Library.Word" "HOL-Library.Char_ord" "HOL-Library.List_Lexorder"
    "HOL-Library.Multiset"
begin

section \<open>Outcomes of a call\<close>

text \<open>
  A Go call of this package ends in one of three ways: it returns a result with a nil
  error, it returns a non-nil error (built with \<^verbatim>\<open>fmt.Errorf\<close> or handed on from a
  callee), or it panics. The model returns \<open>Inr\<close> the result, \<open>Inl (Error msg)\<close> or
  \<open>Inl (Panic msg)\<close>.
\<close>

datatype error = Error string | Panic string

type_synonym 'a result = "error + 'a"

fun is_Panic :: "'a result \<Rightarrow> bool" where
  "is_Panic (Inl (Panic m)) = True"
| "is_Panic r = False"

fun is_Error :: "'a result \<Rightarrow> bool" where
  "is_Error (Inl (Error m)) = True"
| "is_Error r = False"

section \<open>Strings\<close>

text \<open>A Go string is a byte sequence; \<^verbatim>\<open><\<close> on strings compares bytewise, which is the
  lexicographic order of \<^typ>\<open>string\<close> over the byte order of \<^typ>\<open>char\<close>.\<close>

definition dquote :: char where
  "dquote = CHR 0x22"

definition backslash :: char where
  "backslash = CHR 0x5C"

definition newline :: string where
  "newline = [CHR 0x0A]"

text \<open>\<^verbatim>\<open>strings.Join\<close>.\<close>

fun Join :: "string list \<Rightarrow> string \<Rightarrow> string" where
  "Join [] sep = []"
| "Join [s] sep = s"
| "Join (s # t # ss) sep = s @ sep @ Join (t # ss) sep"

definition digit :: "nat \<Rightarrow> char" where
  "digit d = ''0123456789abcdef'' ! d"

text \<open>
  The verb \<^verbatim>\<open>%q\<close> of package fmt on a string (\<^verbatim>\<open>strconv.Quote\<close>): the text in double
  quotes, with the quote and the backslash escaped, the control characters written as
  Go escapes, and printable ASCII kept. Bytes from 0x80 on are kept as they are, which
  is what Go does for valid UTF-8 text of printable runes; Go's Unicode tables are not
  part of this development.
\<close>

definition quote_byte :: "char \<Rightarrow> string" where
  "quote_byte c =
     (let n = (of_char c :: nat) in
      if c = dquote then [backslash, dquote]
      else if c = backslash then [backslash, backslash]
      else if n = 7 then [backslash, CHR ''a'']
      else if n = 8 then [backslash, CHR ''b'']
      else if n = 12 then [backslash, CHR ''f'']
      else if n = 10 then [backslash, CHR ''n'']
      else if n = 13 then [backslash, CHR ''r'']
      else if n = 9 then [backslash, CHR ''t'']
      else if n = 11 then [backslash, CHR ''v'']
      else if n < 32 \<or> n = 127 then [backslash, CHR ''x'', digit (n div 16), digit (n mod 16)]
      else [c])"

definition quote :: "string \<Rightarrow> string" where
  "quote s = [dquote] @ concat (map quote_byte s) @ [dquote]"

text \<open>\<^verbatim>\<open>fmtInt\<close> of package time: the decimal digits of \<open>v\<close>, \<^verbatim>\<open>0\<close> for zero. The
  loop \<^verbatim>\<open>for v > 0\<close> writes the digits from the last to the first.\<close>

function fmtInt_loop :: "nat \<Rightarrow> string \<Rightarrow> string" where
  "fmtInt_loop v buf = (if v > 0 then fmtInt_loop (v div 10) (digit (v mod 10) # buf) else buf)"
  by pat_completeness auto
termination
  by (relation "measure (\<lambda>(v, buf). v)") auto

definition fmtInt :: "nat \<Rightarrow> string \<Rightarrow> string" where
  "fmtInt v buf = (if v = 0 then CHR ''0'' # buf else fmtInt_loop v buf)"

section \<open>The AST\<close>

text \<open>
  A \<^verbatim>\<open>*big.Float\<close>, by its precision and its value: in \<open>BigFloat prec neg m e\<close> the
  sign \<open>neg\<close>, the magnitude \<open>m\<close> and the binary exponent \<open>e\<close> stand for the number
  \<open>m * 2 ^ e\<close>, negated when \<open>neg\<close>; \<open>BigInf prec neg\<close> is an infinity.
\<close>

datatype bigfloat = BigFloat nat bool nat int | BigInf nat bool

text \<open>
  The node types that \<^verbatim>\<open>marshal.go\<close> builds and walks. A Go pointer field that may be
  nil is an \<open>option\<close>. The fields are the ones \<^verbatim>\<open>marshal.go\<close> reads and writes:
  \<^verbatim>\<open>Value{Str, Number, Bool, List, HaveList, Map, HaveMap}\<close>,
  \<^verbatim>\<open>MapEntry{Key, Value, Comments}\<close>, \<^verbatim>\<open>Attribute{Key, Value}\<close>,
  \<^verbatim>\<open>Block{Name, Labels, Body}\<close>, \<^verbatim>\<open>Entry{Block, Attribute, Comments}\<close> and
  \<^verbatim>\<open>AST{Entries}\<close>.
\<close>

datatype Value =
  Value (Value_Str: "string option") (Value_Number: "bigfloat option")
        (Value_Bool: "bool option") (Value_List: "Value list") (Value_HaveList: bool)
        (Value_Map: "MapEntry list") (Value_HaveMap: bool)
and MapEntry =
  MapEntry (MapEntry_Key: Value) (MapEntry_Value: Value) (MapEntry_Comments: "string list")

text \<open>The zero \<^verbatim>\<open>Value{}\<close>, and the composite literals of \<^verbatim>\<open>valueToValue\<close>.\<close>

definition Value0 :: Value where
  "Value0 = Value None None None [] False [] False"

definition Value_of_Str :: "string \<Rightarrow> Value" where
  "Value_of_Str s = Value (Some s) None None [] False [] False"

definition Value_of_Number :: "bigfloat \<Rightarrow> Value" where
  "Value_of_Number n = Value None (Some n) None [] False [] False"

definition Value_of_Bool :: "bool \<Rightarrow> Value" where
  "Value_of_Bool b = Value None None (Some b) [] False [] False"

definition Value_of_List :: "Value list \<Rightarrow> Value" where
  "Value_of_List l = Value None None None l True [] False"

definition Value_of_Map :: "MapEntry list \<Rightarrow> Value" where
  "Value_of_Map m = Value None None None [] False m True"

datatype Attribute = Attribute (Attribute_Key: string) (Attribute_Value: Value)

datatype Entry =
  Entry (Entry_Block: "Block option") (Entry_Attribute: "Attribute option")
        (Entry_Comments: "string list")
and Block =
  Block (Block_Name: string) (Block_Labels: "string list") (Block_Body: "Entry list")

datatype AST = AST (AST_Entries: "Entry list")

section \<open>Rendering\<close>

text \<open>\<^verbatim>\<open>fmtFrac\<close> of package time: the fraction of \<open>v / 10 ^ prec\<close> written before
  \<open>buf\<close> without its trailing zeros (and without the point when the fraction is zero),
  and the integer part \<open>v div 10 ^ prec\<close>.\<close>

fun fmtFrac_loop :: "nat \<Rightarrow> nat \<Rightarrow> bool \<Rightarrow> string \<Rightarrow> string \<times> nat \<times> bool" where
  "fmtFrac_loop 0 v print buf = (buf, v, print)"
| "fmtFrac_loop (Suc i) v print buf =
     (let d = v mod 10; print' = (print \<or> d \<noteq> 0)
      in fmtFrac_loop i (v div 10) print' (if print' then digit d # buf else buf))"

definition fmtFrac :: "string \<Rightarrow> nat \<Rightarrow> nat \<Rightarrow> string \<times> nat" where
  "fmtFrac buf v prec =
     (case fmtFrac_loop prec v False buf of
        (buf', v', print) \<Rightarrow> (if print then CHR ''.'' # buf' else buf', v'))"

text \<open>
  Modelled from the spec: the method \<^verbatim>\<open>String\<close> of \<^verbatim>\<open>Value\<close>, which the verb
  \<^verbatim>\<open>%s\<close> in \<^verbatim>\<open>marshalValue\<close> and \<^verbatim>\<open>marshalMap\<close> calls, is not in
  \<^verbatim>\<open>marshal.go\<close>. The spec (4.4): "the Value's canonical textual form: quoted string,
  minimal decimal for Number, bare true/false for Bool, [v1, v2, ...] for List", and
  "Numbers render with no trailing zeros or scientific notation". The variants are
  tried in the order of that sentence. The spec gives no text for a Value with none of
  the four (a Map is rendered by \<^verbatim>\<open>marshalMap\<close>); the model returns the empty text.
  The minimal decimal of \<open>m * 2 ^ e\<close> with \<open>e < 0\<close> is that of \<open>m * 5 ^ k / 10 ^ k\<close>,
  \<open>k = - e\<close>, which is finite.
\<close>

definition Number_String :: "bigfloat \<Rightarrow> string" where
  "Number_String x =
     (case x of
        BigInf prec neg \<Rightarrow> (if neg then ''-Inf'' else ''+Inf'')
      | BigFloat prec neg m e \<Rightarrow>
          (if neg \<and> m \<noteq> 0 then ''-'' else []) @
          (if 0 \<le> e then fmtInt (m * 2 ^ nat e) []
           else (case fmtFrac [] (m * 5 ^ nat (- e)) (nat (- e)) of
                   (frac, ip) \<Rightarrow> fmtInt ip frac)))"

fun Value_String :: "Value \<Rightarrow> string" where
  "Value_String (Value str number bool list haveList m haveMap) =
     (case str of Some s \<Rightarrow> quote s
      | None \<Rightarrow>
     (case number of Some n \<Rightarrow> Number_String n
      | None \<Rightarrow>
     (case bool of Some b \<Rightarrow> (if b then ''true'' else ''false'')
      | None \<Rightarrow>
     (if haveList then ''['' @ Join (map Value_String list) '', '' @ '']''
      else []))))"

text \<open>\<^verbatim>\<open>marshalComments\<close>. The writer \<open>w\<close> only ever receives appended text, and no
  function of \<^verbatim>\<open>marshal.go\<close> looks at the error of a write: each function of the
  renderer is modelled by the text it appends to \<open>w\<close>.\<close>

definition marshalComments :: "string \<Rightarrow> string list \<Rightarrow> string" where
  "marshalComments indent comments = concat (map (\<lambda>comment. indent @ comment @ newline) comments)"

text \<open>\<^verbatim>\<open>marshalValue\<close> and \<^verbatim>\<open>marshalMap\<close>. The slice expression
  \<^verbatim>\<open>indent[:len(indent)-2]\<close> panics when \<open>indent\<close> has fewer than two bytes.\<close>

fun marshalValue :: "string \<Rightarrow> Value \<Rightarrow> string result"
and marshalMap :: "string \<Rightarrow> MapEntry list \<Rightarrow> string result"
and marshalMap_loop :: "string \<Rightarrow> MapEntry list \<Rightarrow> string result"
where
  "marshalValue indent (Value str number bool list haveList m haveMap) =
     (if haveMap then marshalMap (indent @ ''  '') m
      else Inr (Value_String (Value str number bool list haveList m haveMap)))"
| "marshalMap indent entries =
     (case marshalMap_loop indent entries of
        Inl err \<Rightarrow> Inl err
      | Inr body \<Rightarrow>
          if length indent < 2 then Inl (Panic ''slice bounds out of range'')
          else Inr (''{'' @ newline @ body @ take (length indent - 2) indent @ ''}''))"
| "marshalMap_loop indent [] = Inr []"
| "marshalMap_loop indent (MapEntry key val comments # entries) =
     (case marshalValue (indent @ ''  '') val of
        Inl err \<Rightarrow> Inl err
      | Inr v \<Rightarrow>
          (case marshalMap_loop indent entries of
             Inl err \<Rightarrow> Inl err
           | Inr rest \<Rightarrow>
               Inr (marshalComments indent comments @ indent @ Value_String key @ '': '' @ v
                    @ '','' @ newline @ rest)))"

text \<open>\<^verbatim>\<open>marshalAttribute\<close>.\<close>

definition marshalAttribute :: "string \<Rightarrow> Attribute \<Rightarrow> string result" where
  "marshalAttribute indent attribute =
     (case marshalValue indent (Attribute_Value attribute) of
        Inl err \<Rightarrow> Inl err
      | Inr v \<Rightarrow> Inr (indent @ Attribute_Key attribute @ '' = '' @ v @ newline))"

text \<open>\<^verbatim>\<open>marshalEntries\<close> and \<^verbatim>\<open>marshalBlock\<close>. The loop carries \<open>n = len(entries)\<close>
  and the index \<open>i\<close> of the entry at the head of what is left.\<close>

fun marshalEntries :: "string \<Rightarrow> Entry list \<Rightarrow> string result"
and marshalEntries_loop :: "string \<Rightarrow> nat \<Rightarrow> nat \<Rightarrow> Entry list \<Rightarrow> string result"
and marshalBlock :: "string \<Rightarrow> Block \<Rightarrow> string result"
where
  "marshalEntries indent entries = marshalEntries_loop indent (length entries) 0 entries"
| "marshalEntries_loop indent n i [] = Inr []"
| "marshalEntries_loop indent n i (Entry (Some block) attribute comments # rest) =
     (case marshalBlock indent block of
        Inl err \<Rightarrow> Inl err
      | Inr b \<Rightarrow>
          (case marshalEntries_loop indent n (i + 1) rest of
             Inl err \<Rightarrow> Inl err
           | Inr r \<Rightarrow>
               Inr (marshalComments indent comments @ b
                    @ (if int i \<noteq> int n - 1 then newline else []) @ r)))"
| "marshalEntries_loop indent n i (Entry None (Some attribute) comments # rest) =
     (case marshalAttribute indent attribute of
        Inl err \<Rightarrow> Inl err
      | Inr a \<Rightarrow>
          (case marshalEntries_loop indent n (i + 1) rest of
             Inl err \<Rightarrow> Inl err
           | Inr r \<Rightarrow> Inr (marshalComments indent comments @ a @ r)))"
| "marshalEntries_loop indent n i (Entry None None comments # rest) = Inl (Panic ''??'')"
| "marshalBlock indent (Block name labels body) =
     (case marshalEntries (indent @ ''  '') body of
        Inl err \<Rightarrow> Inl err
      | Inr b \<Rightarrow>
          Inr (indent @ name @ '' '' @ concat (map (\<lambda>label. quote label @ '' '') labels)
               @ ''{'' @ newline @ b @ indent @ ''}'' @ newline))"

text \<open>\<^verbatim>\<open>MarshalASTToWriter\<close> and \<^verbatim>\<open>MarshalAST\<close>.\<close>

definition MarshalASTToWriter :: "AST \<Rightarrow> string result" where
  "MarshalASTToWriter ast = marshalEntries [] (AST_Entries ast)"

definition MarshalAST :: "AST \<Rightarrow> string result" where
  "MarshalAST ast = MarshalASTToWriter ast"

section \<open>Go values as package reflect shows them\<close>

text \<open>\<^verbatim>\<open>reflect.Kind\<close>.\<close>

datatype Kind =
    reflect_Invalid | reflect_Bool
  | reflect_Int | reflect_Int8 | reflect_Int16 | reflect_Int32 | reflect_Int64
  | reflect_Uint | reflect_Uint8 | reflect_Uint16 | reflect_Uint32 | reflect_Uint64
  | reflect_Uintptr | reflect_Float32 | reflect_Float64
  | reflect_Complex64 | reflect_Complex128
  | reflect_Array | reflect_Chan | reflect_Func | reflect_Interface | reflect_Map
  | reflect_Ptr | reflect_Slice | reflect_String | reflect_Struct | reflect_UnsafePointer

text \<open>A \<^verbatim>\<open>reflect.Type\<close>, as far as \<^verbatim>\<open>marshal.go\<close> looks at it: what \<^verbatim>\<open>String()\<close>
  returns and its \<^verbatim>\<open>Kind()\<close>. The package's variables \<^verbatim>\<open>durationType\<close> and
  \<^verbatim>\<open>timeType\<close> are the types of \<^verbatim>\<open>time.Duration\<close> (an int64) and \<^verbatim>\<open>time.Time\<close>
  (a struct).\<close>

datatype reflect_Type = Type (Type_String: string) (Type_Kind: Kind)

definition durationType :: reflect_Type where
  "durationType = Type ''time.Duration'' reflect_Int64"

definition timeType :: reflect_Type where
  "timeType = Type ''time.Time'' reflect_Struct"

text \<open>The sizes of the integer and floating-point kinds.\<close>

datatype int_size = I | I8 | I16 | I32 | I64
datatype uint_size = U | U8 | U16 | U32 | U64
datatype float_size = F32 | F64

text \<open>The kinds that carry no data \<^verbatim>\<open>marshal.go\<close> reads.\<close>

datatype other_kind =
    Uintptr | Complex64 | Complex128 | Array | Chan | Func | Interface | UnsafePointer

text \<open>A float64: \<open>Float64 neg m e\<close> is \<open>m * 2 ^ e\<close>, negated when \<open>neg\<close> (so that
  \<open>Float64 True 0 0\<close> is the negative zero), an infinity, or a NaN.\<close>

datatype float64 = Float64 bool nat int | Float64_Inf bool | Float64_NaN

text \<open>
  Modelled from the spec: the struct tag descriptor that \<^verbatim>\<open>parseTag\<close> returns is not
  declared in \<^verbatim>\<open>marshal.go\<close>. The spec (6): "a structured descriptor {name, is-label,
  is-block, is-optional, comment lines}"; \<^verbatim>\<open>marshal.go\<close> reads \<^verbatim>\<open>tag.name\<close>,
  \<^verbatim>\<open>tag.label\<close>, \<^verbatim>\<open>tag.block\<close>, \<^verbatim>\<open>tag.optional\<close> and \<^verbatim>\<open>tag.comments()\<close>.
\<close>

record tag =
  tag_name :: string
  tag_label :: bool
  tag_block :: bool
  tag_optional :: bool
  tag_comments :: "string list"

text \<open>
  A \<^verbatim>\<open>reflect.Value\<close> that holds a Go value: the name of its type; what its
  \<^verbatim>\<open>MarshalText\<close> and \<^verbatim>\<open>MarshalJSON\<close> methods return, when its type (or the pointer
  to it) has them; and its data, one constructor for each kind that \<^verbatim>\<open>marshal.go\<close>
  tells apart.
  \<^item> \<open>DInt\<close> and \<open>DUint\<close> hold what \<^verbatim>\<open>v.Int()\<close> and \<^verbatim>\<open>v.Uint()\<close> return.
  \<^item> \<open>DSlice\<close> and \<open>DMap\<close> hold \<open>None\<close> for the nil slice and the nil map. A map is
    the list of its keys and values in the order \<^verbatim>\<open>MapKeys\<close> happens to return them.
  \<^item> \<open>DStruct err fields\<close> is a struct: its fields, each with the descriptor of its
    tag, in the order of the Field Enumerator, and the error of the Field Enumerator
    when it fails on this struct.
  \<^item> \<open>DTime text zero\<close> is a \<^verbatim>\<open>time.Time\<close>, by its RFC 3339 text and whether it is
    the zero time.
  \<^item> \<open>DPtr\<close> holds \<open>None\<close> for the nil pointer.
  \<^item> \<open>DOther k zero\<close> is a value of another kind, with whether it is the zero value
    of its type.
\<close>

datatype reflect_Value =
  RValue (rv_name: string) (rv_MarshalText: "string result option")
         (rv_MarshalJSON: "string result option") (rv_data: rdata)
and rdata =
    DBool bool
  | DInt int_size "64 word"
  | DUint uint_size "64 word"
  | DFloat float_size float64
  | DString string
  | DSlice "reflect_Value list option"
  | DMap "(reflect_Value \<times> reflect_Value) list option"
  | DStruct "string option" "(tag \<times> reflect_Value) list"
  | DTime string bool
  | DPtr "reflect_Value option"
  | DOther other_kind bool

text \<open>\<^verbatim>\<open>v.Kind()\<close> and \<^verbatim>\<open>v.Type()\<close>.\<close>

fun Kind_of_data :: "rdata \<Rightarrow> Kind" where
  "Kind_of_data (DBool b) = reflect_Bool"
| "Kind_of_data (DInt I i) = reflect_Int"
| "Kind_of_data (DInt I8 i) = reflect_Int8"
| "Kind_of_data (DInt I16 i) = reflect_Int16"
| "Kind_of_data (DInt I32 i) = reflect_Int32"
| "Kind_of_data (DInt I64 i) = reflect_Int64"
| "Kind_of_data (DUint U u) = reflect_Uint"
| "Kind_of_data (DUint U8 u) = reflect_Uint8"
| "Kind_of_data (DUint U16 u) = reflect_Uint16"
| "Kind_of_data (DUint U32 u) = reflect_Uint32"
| "Kind_of_data (DUint U64 u) = reflect_Uint64"
| "Kind_of_data (DFloat F32 f) = reflect_Float32"
| "Kind_of_data (DFloat F64 f) = reflect_Float64"
| "Kind_of_data (DString s) = reflect_String"
| "Kind_of_data (DSlice l) = reflect_Slice"
| "Kind_of_data (DMap m) = reflect_Map"
| "Kind_of_data (DStruct err flds) = reflect_Struct"
| "Kind_of_data (DTime text zero) = reflect_Struct"
| "Kind_of_data (DPtr p) = reflect_Ptr"
| "Kind_of_data (DOther Uintptr z) = reflect_Uintptr"
| "Kind_of_data (DOther Complex64 z) = reflect_Complex64"
| "Kind_of_data (DOther Complex128 z) = reflect_Complex128"
| "Kind_of_data (DOther Array z) = reflect_Array"
| "Kind_of_data (DOther Chan z) = reflect_Chan"
| "Kind_of_data (DOther Func z) = reflect_Func"
| "Kind_of_data (DOther Interface z) = reflect_Interface"
| "Kind_of_data (DOther UnsafePointer z) = reflect_UnsafePointer"

definition Kind_of :: "reflect_Value \<Rightarrow> Kind" where
  "Kind_of v = Kind_of_data (rv_data v)"

definition Type_of :: "reflect_Value \<Rightarrow> reflect_Type" where
  "Type_of v = Type (rv_name v) (Kind_of v)"

text \<open>\<^verbatim>\<open>v.String()\<close>: the string of a value of kind String, and \<^verbatim>\<open><T Value>\<close> for a
  value of any other type \<open>T\<close>.\<close>

definition String_of :: "reflect_Value \<Rightarrow> string" where
  "String_of v =
     (case rv_data v of
        DString s \<Rightarrow> s
      | _ \<Rightarrow> ''<'' @ rv_name v @ '' Value>'')"

text \<open>\<^verbatim>\<open>v.IsZero()\<close>: false, zero, the positive zero, the empty string, nil, and a
  struct whose fields are all zero.\<close>

fun IsZero :: "reflect_Value \<Rightarrow> bool"
and IsZero_data :: "rdata \<Rightarrow> bool"
and IsZero_fields :: "(tag \<times> reflect_Value) list \<Rightarrow> bool"
where
  "IsZero (RValue name mt mj d) = IsZero_data d"
| "IsZero_data (DBool b) = (\<not> b)"
| "IsZero_data (DInt sz i) = (i = 0)"
| "IsZero_data (DUint sz u) = (u = 0)"
| "IsZero_data (DFloat sz f) = (f = Float64 False 0 0)"
| "IsZero_data (DString s) = (length s = 0)"
| "IsZero_data (DSlice l) = (l = None)"
| "IsZero_data (DMap m) = (m = None)"
| "IsZero_data (DStruct err flds) = IsZero_fields flds"
| "IsZero_data (DTime text zero) = zero"
| "IsZero_data (DPtr p) = (p = None)"
| "IsZero_data (DOther k zero) = zero"
| "IsZero_fields [] = True"
| "IsZero_fields (f # fs) = (IsZero (snd f) \<and> IsZero_fields fs)"

text \<open>An \<^verbatim>\<open>interface{}\<close> argument is nil or holds a value. \<^verbatim>\<open>reflect.ValueOf\<close>
  of nil and \<^verbatim>\<open>Elem()\<close> of a nil pointer are the zero \<^verbatim>\<open>reflect.Value\<close>, of kind
  Invalid: \<open>None\<close> below. The verb \<^verbatim>\<open>%T\<close> prints \<^verbatim>\<open><nil>\<close> for nil.\<close>

definition Kind_opt :: "reflect_Value option \<Rightarrow> Kind" where
  "Kind_opt rv = (case rv of None \<Rightarrow> reflect_Invalid | Some v \<Rightarrow> Kind_of v)"

definition Elem :: "reflect_Value option \<Rightarrow> reflect_Value option" where
  "Elem rv = (case rv of Some (RValue name mt mj (DPtr p)) \<Rightarrow> p | _ \<Rightarrow> None)"

definition format_T :: "reflect_Value option \<Rightarrow> string" where
  "format_T v = (case v of None \<Rightarrow> ''<nil>'' | Some rv \<Rightarrow> Type_String (Type_of rv))"

section \<open>The standard library calls of \<^verbatim>\<open>valueToValue\<close>\<close>

text \<open>
  \<^verbatim>\<open>time.Duration.String\<close>, after the source of package time: a duration is an int64
  count of nanoseconds; the text is built from its end. Below one second the unit is
  ns, us (written with the micro sign, the bytes C2 B5) or ms; from one second on the
  text is hours, minutes and seconds, the leading zero units left out and the seconds
  always written.
\<close>

definition Duration_String :: "64 word \<Rightarrow> string" where
  "Duration_String d =
     (let neg = (sint d < 0);
          u = unat (if neg then - d else d)
      in if u < 1000000000 then
           (if u = 0 then ''0s''
            else
              (case (if u < 1000 then (0, ''ns'')
                     else if u < 1000000 then (3, [CHR 0xC2, CHR 0xB5] @ ''s'')
                     else (6, ''ms'')) of
                 (prec, buf) \<Rightarrow>
                   (case fmtFrac buf u prec of
                      (buf', u') \<Rightarrow>
                        (if neg then ''-'' else []) @ fmtInt u' buf')))
         else
           (case fmtFrac ''s'' u 9 of
              (buf, secs) \<Rightarrow>
                (let buf1 = fmtInt (secs mod 60) buf;
                     mins = secs div 60;
                     buf2 = (if mins > 0
                             then (let buf3 = fmtInt (mins mod 60) (CHR ''m'' # buf1);
                                       hours = mins div 60
                                   in if hours > 0 then fmtInt hours (CHR ''h'' # buf3)
                                      else buf3)
                             else buf1)
                 in (if neg then ''-'' else []) @ buf2)))"

text \<open>\<^verbatim>\<open>bits.Len64\<close>: the number of bits of \<open>x\<close>.\<close>

function Len64 :: "nat \<Rightarrow> nat" where
  "Len64 x = (if x = 0 then 0 else Suc (Len64 (x div 2)))"
  by pat_completeness auto
termination
  by (relation "measure (\<lambda>x. x)") auto

text \<open>
  Package math/big. \<^verbatim>\<open>NewFloat(x)\<close> is a Float of precision 53 with the value of
  \<open>x\<close>, and panics on a NaN. \<^verbatim>\<open>z.SetInt64(x)\<close> and \<^verbatim>\<open>z.SetUint64(x)\<close> keep the
  precision of \<open>z\<close> unless it is 0, when it becomes 64, and store \<open>x\<close> rounded to that
  precision: \<^verbatim>\<open>setBits64\<close> rounds a magnitude of more bits than the precision to the
  nearest value with that many bits, a tie to the even one (the mode of a new Float).
\<close>

definition NewFloat :: "float64 \<Rightarrow> bigfloat result" where
  "NewFloat x =
     (case x of
        Float64_NaN \<Rightarrow> Inl (Panic ''NewFloat(NaN)'')
      | Float64_Inf neg \<Rightarrow> Inr (BigInf 53 neg)
      | Float64 neg m e \<Rightarrow> Inr (BigFloat 53 neg m e))"

definition round_bits :: "nat \<Rightarrow> nat \<Rightarrow> nat" where
  "round_bits prec x =
     (if Len64 x \<le> prec then x
      else
        (let r = Len64 x - prec;
             q = x div 2 ^ r;
             rbit = (x div 2 ^ (r - 1)) mod 2;
             sbit = (if x mod 2 ^ (r - 1) = 0 then 0 else (1::nat));
             inc = (rbit \<noteq> 0 \<and> (sbit \<noteq> 0 \<or> q mod 2 \<noteq> 0))
         in (if inc then q + 1 else q) * 2 ^ r))"

definition bigfloat_prec :: "bigfloat \<Rightarrow> nat" where
  "bigfloat_prec z = (case z of BigFloat prec neg m e \<Rightarrow> prec | BigInf prec neg \<Rightarrow> prec)"

definition setBits64 :: "bigfloat \<Rightarrow> bool \<Rightarrow> nat \<Rightarrow> bigfloat" where
  "setBits64 z neg x =
     (let prec = (if bigfloat_prec z = 0 then 64 else bigfloat_prec z)
      in BigFloat prec neg (if prec < 64 then round_bits prec x else x) 0)"

definition SetInt64 :: "bigfloat \<Rightarrow> 64 word \<Rightarrow> bigfloat" where
  "SetInt64 z x = setBits64 z (sint x < 0) (unat (if sint x < 0 then - x else x))"

definition SetUint64 :: "bigfloat \<Rightarrow> 64 word \<Rightarrow> bigfloat" where
  "SetUint64 z x = setBits64 z False (unat x)"

text \<open>The number a Float stands for, when it is an integer.\<close>

definition bigfloat_int :: "bigfloat \<Rightarrow> int option" where
  "bigfloat_int z =
     (case z of
        BigInf prec neg \<Rightarrow> None
      | BigFloat prec neg m e \<Rightarrow>
          (if 0 \<le> e then Some ((if neg then - 1 else 1) * int m * 2 ^ nat e)
           else if m mod 2 ^ nat (- e) = 0
                then Some ((if neg then - 1 else 1) * int (m div 2 ^ nat (- e)))
           else None))"

section \<open>The collaborators\<close>

text \<open>
  \<^verbatim>\<open>attrSchema\<close> and \<^verbatim>\<open>sliceToBlockSchema\<close>, which \<^verbatim>\<open>marshal.go\<close> calls in schema
  mode, are not in \<^verbatim>\<open>marshal.go\<close>: the encoder takes them as parameters.
\<close>

record collaborators =
  attrSchema :: "reflect_Type \<Rightarrow> Value result"
  sliceToBlockSchema :: "reflect_Type \<Rightarrow> tag \<Rightarrow> Block result"

datatype interface_type = textMarshalerInterface | jsonMarshalerInterface

text \<open>
  Modelled from the spec: \<^verbatim>\<open>implements\<close> is not in \<^verbatim>\<open>marshal.go\<close>. The spec (4.2):
  "type exposing a text-encoding capability: invoke it; output bytes become Str; its
  failure propagates", and the same for the JSON-encoding capability. The model gives
  what the method of the value returns when its type has the capability.
\<close>

definition implements :: "reflect_Value \<Rightarrow> interface_type \<Rightarrow> string result option" where
  "implements v iface =
     (case iface of
        textMarshalerInterface \<Rightarrow> rv_MarshalText v
      | jsonMarshalerInterface \<Rightarrow> rv_MarshalJSON v)"

text \<open>
  Modelled from the spec: \<^verbatim>\<open>flattenFields\<close> and \<^verbatim>\<open>parseTag\<close> are not in
  \<^verbatim>\<open>marshal.go\<close>. The spec (6): the Field Enumerator, "given a record type/value,
  returns an ordered list of (field value, raw tag string) pairs, resolving embedded
  fields inline in declaration order; its failure aborts the whole encode"; the Tag
  Interpreter, "given a raw tag string, returns a structured descriptor". A field of
  the model holds the descriptor of its tag, which \<open>parseTag\<close> hands over. The spec
  does not say what the Field Enumerator does with a value that is not a record: the
  model panics there, as package reflect does when asked for the fields of such a value.
\<close>

type_synonym field = "tag \<times> reflect_Value"

definition field_t :: "field \<Rightarrow> tag" where
  "field_t f = fst f"

definition field_v :: "field \<Rightarrow> reflect_Value" where
  "field_v f = snd f"

definition flattenFields :: "reflect_Value \<Rightarrow> field list result" where
  "flattenFields v =
     (case rv_data v of
        DStruct err flds \<Rightarrow> (case err of Some e \<Rightarrow> Inl (Error e) | None \<Rightarrow> Inr flds)
      | _ \<Rightarrow> Inl (Panic (''reflect: call of reflect.Value.NumField on '' @ rv_name v @ '' Value'')))"

definition parseTag :: "reflect_Type \<Rightarrow> tag \<Rightarrow> tag" where
  "parseTag parent t = t"

section \<open>The Value Encoder\<close>

text \<open>\<^verbatim>\<open>v.MapIndex(key)\<close>, and the keys of a map sorted as \<^verbatim>\<open>sort.Slice\<close> leaves them
  under the comparison \<^verbatim>\<open>sorted[i].String() < sorted[j].String()\<close>. (Keys whose
  strings are equal stay in the order of \<^verbatim>\<open>MapKeys\<close> here; Go does not promise an
  order for them.)\<close>

definition MapKeys :: "(reflect_Value \<times> reflect_Value) list option \<Rightarrow> reflect_Value list" where
  "MapKeys m = (case m of None \<Rightarrow> [] | Some kvs \<Rightarrow> map fst kvs)"

definition MapIndex ::
  "(reflect_Value \<times> reflect_Value) list option \<Rightarrow> reflect_Value \<Rightarrow> reflect_Value option" where
  "MapIndex m key = (case m of None \<Rightarrow> None | Some kvs \<Rightarrow> map_of kvs key)"

definition sort_Slice :: "reflect_Value list \<Rightarrow> reflect_Value list" where
  "sort_Slice keys = sort_key String_of keys"

text \<open>
  \<^verbatim>\<open>valueToValue\<close>. The constructor of the data of \<open>v\<close> is its kind, so the switch on
  \<^verbatim>\<open>t.Kind()\<close> is the case distinction on the data. The two loops take what is left
  of the slice (of the sorted keys) and the list built so far. In the case of kind
  String the type assertion \<^verbatim>\<open>v.Interface().(string)\<close> panics when the type of \<open>v\<close> is
  a named string type and not \<^verbatim>\<open>string\<close> itself. The assertions to
  \<^verbatim>\<open>time.Duration\<close> and \<^verbatim>\<open>time.Time\<close> come after the test of the type, and the keys
  of the second loop are keys of the map: no Go value reaches the panics of those
  branches.
\<close>

function (sequential) valueToValue :: "reflect_Value \<Rightarrow> Value result"
and valueToValue_slice :: "reflect_Value list \<Rightarrow> Value list \<Rightarrow> Value list result"
and valueToValue_map ::
  "(reflect_Value \<times> reflect_Value) list option \<Rightarrow> reflect_Value list \<Rightarrow> MapEntry list
   \<Rightarrow> MapEntry list result"
where
  "valueToValue (RValue name mt mj d) =
     (let v = RValue name mt mj d; t = Type_of v
      in if t = durationType then
           (case d of
              DInt sz i \<Rightarrow> Inr (Value_of_Str (Duration_String i))
            | _ \<Rightarrow> Inl (Panic ''interface conversion''))
         else
           (case implements v textMarshalerInterface of
              Some tm \<Rightarrow>
                (case tm of Inl err \<Rightarrow> Inl err | Inr b \<Rightarrow> Inr (Value_of_Str b))
            | None \<Rightarrow>
           (case implements v jsonMarshalerInterface of
              Some jm \<Rightarrow>
                (case jm of Inl err \<Rightarrow> Inl err | Inr b \<Rightarrow> Inr (Value_of_Str b))
            | None \<Rightarrow>
           (case d of
              DString s \<Rightarrow>
                (if Type_String t = ''string'' then Inr (Value_of_Str s)
                 else Inl (Panic (''interface conversion: interface {} is '' @ Type_String t
                                  @ '', not string'')))
            | DSlice l \<Rightarrow>
                (case valueToValue_slice (case l of None \<Rightarrow> [] | Some els \<Rightarrow> els) [] of
                   Inl err \<Rightarrow> Inl err
                 | Inr list \<Rightarrow> Inr (Value_of_List list))
            | DMap m \<Rightarrow>
                (case valueToValue_map m (sort_Slice (MapKeys m)) [] of
                   Inl err \<Rightarrow> Inl err
                 | Inr entries \<Rightarrow> Inr (Value_of_Map entries))
            | DFloat sz f \<Rightarrow>
                (case NewFloat f of
                   Inl err \<Rightarrow> Inl err
                 | Inr n \<Rightarrow> Inr (Value_of_Number n))
            | DInt sz i \<Rightarrow>
                (case NewFloat (Float64 False 0 0) of
                   Inl err \<Rightarrow> Inl err
                 | Inr z \<Rightarrow> Inr (Value_of_Number (SetInt64 z i)))
            | DUint sz u \<Rightarrow>
                (case NewFloat (Float64 False 0 0) of
                   Inl err \<Rightarrow> Inl err
                 | Inr z \<Rightarrow> Inr (Value_of_Number (SetUint64 z u)))
            | DBool b \<Rightarrow> Inr (Value_of_Bool b)
            | _ \<Rightarrow>
                (if t = timeType then
                   (case d of
                      DTime text zero \<Rightarrow> Inr (Value_of_Str text)
                    | _ \<Rightarrow> Inl (Panic ''interface conversion''))
                 else Inl (Panic (Type_String t)))))))"
| "valueToValue_slice [] list = Inr list"
| "valueToValue_slice (el # els) list =
     (case valueToValue el of
        Inl err \<Rightarrow> Inl err
      | Inr elv \<Rightarrow> valueToValue_slice els (list @ [elv]))"
| "valueToValue_map m [] entries = Inr entries"
| "valueToValue_map m (key # keys) entries =
     (case MapIndex m key of
        None \<Rightarrow> Inl (Panic ''reflect: call of reflect.Value.Type on zero Value'')
      | Some x \<Rightarrow>
          (case valueToValue x of
             Inl err \<Rightarrow> Inl err
           | Inr val \<Rightarrow>
               valueToValue_map m keys
                 (entries @ [MapEntry (Value_of_Str (String_of key)) val []])))"
  by pat_completeness auto

lemma MapIndex_size:
  assumes "MapIndex m key = Some x"
  shows "size x < size_option (size_list (size_prod size size)) m"
proof -
  from assms obtain kvs where m: "m = Some kvs" and "map_of kvs key = Some x"
    by (cases m) (auto simp: MapIndex_def)
  then have "(key, x) \<in> set kvs"
    by (simp add: map_of_SomeD)
  then have "size_prod size size (key, x) \<le> size_list (size_prod size size) kvs"
    by (rule size_list_estimation') simp
  then show ?thesis
    using m by simp
qed

termination valueToValue
  apply (relation "inv_image (less_than <*lex*> less_than)
     (\<lambda>x. case x of
        Inl v \<Rightarrow> (size v, 0)
      | Inr (Inl (els, list)) \<Rightarrow> (size_list size els, 0)
      | Inr (Inr (m, keys, entries)) \<Rightarrow>
          (size_option (size_list (size_prod size size)) m, Suc (length keys)))")
  apply (auto simp: MapIndex_size split: option.split)
  done

section \<open>The Struct Encoder and the Block Encoder\<close>

text \<open>\<^verbatim>\<open>fieldToAttr\<close>.\<close>

definition fieldToAttr :: "collaborators \<Rightarrow> field \<Rightarrow> tag \<Rightarrow> bool \<Rightarrow> Attribute result" where
  "fieldToAttr C fld tag schema =
     (case (if schema then attrSchema C (Type_of (field_v fld))
            else valueToValue (field_v fld)) of
        Inl err \<Rightarrow> Inl err
      | Inr val \<Rightarrow> Inr (Attribute (tag_name tag) val))"

text \<open>\<^verbatim>\<open>v.Len()\<close> and \<^verbatim>\<open>v.Index(i)\<close> of a slice: its elements.\<close>

definition elements :: "reflect_Value list option \<Rightarrow> reflect_Value list" where
  "elements l = (case l of None \<Rightarrow> [] | Some els \<Rightarrow> els)"

text \<open>
  \<^verbatim>\<open>structToEntries\<close>, \<^verbatim>\<open>valueToBlock\<close> and \<^verbatim>\<open>sliceToBlocks\<close>. The loop over the
  fields takes the fields that are left and the \<open>entries\<close> and \<open>labels\<close> built so far.
  In schema mode the error of \<^verbatim>\<open>sliceToBlockSchema\<close> is assigned to a variable
  \<open>err\<close> of the inner block only: the \<open>err\<close> that is tested after it is the result
  parameter, which is nil there, so the loop goes on with no block; a panic is not an
  error value and ends the call.
\<close>

function (sequential)
    structToEntries :: "collaborators \<Rightarrow> reflect_Value \<Rightarrow> bool \<Rightarrow> (Entry list \<times> string list) result"
and structToEntries_loop ::
      "collaborators \<Rightarrow> reflect_Type \<Rightarrow> bool \<Rightarrow> field list \<Rightarrow> Entry list \<Rightarrow> string list
       \<Rightarrow> (Entry list \<times> string list) result"
and valueToBlock :: "collaborators \<Rightarrow> reflect_Value \<Rightarrow> tag \<Rightarrow> bool \<Rightarrow> Block result"
and sliceToBlocks :: "collaborators \<Rightarrow> reflect_Value \<Rightarrow> tag \<Rightarrow> Block list result"
and sliceToBlocks_loop ::
      "collaborators \<Rightarrow> reflect_Value list \<Rightarrow> tag \<Rightarrow> Block list \<Rightarrow> Block list result"
where
  "structToEntries C v schema =
     (case flattenFields v of
        Inl err \<Rightarrow> Inl err
      | Inr flds \<Rightarrow> structToEntries_loop C (Type_of v) schema flds [] [])"
| "structToEntries_loop C vt schema [] entries labels = Inr (entries, labels)"
| "structToEntries_loop C vt schema (fld # rest) entries labels =
     (let tag = parseTag vt (field_t fld);
          comments = tag_comments tag
      in if tag_label tag then
           (if schema then structToEntries_loop C vt schema rest entries (labels @ [tag_name tag])
            else structToEntries_loop C vt schema rest entries
                   (labels @ [String_of (field_v fld)]))
         else if tag_block tag then
           (if Kind_of (field_v fld) = reflect_Slice then
              (if schema then
                 (case sliceToBlockSchema C (Type_of (field_v fld)) tag of
                    Inl (Panic p) \<Rightarrow> Inl (Panic p)
                  | Inl (Error e) \<Rightarrow> structToEntries_loop C vt schema rest entries labels
                  | Inr block \<Rightarrow>
                      structToEntries_loop C vt schema rest
                        (entries @ [Entry (Some block) None comments]) labels)
               else
                 (case sliceToBlocks C (field_v fld) tag of
                    Inl err \<Rightarrow> Inl err
                  | Inr blocks \<Rightarrow>
                      structToEntries_loop C vt schema rest
                        (entries @ map (\<lambda>block. Entry (Some block) None comments) blocks)
                        labels))
            else
              (case valueToBlock C (field_v fld) tag schema of
                 Inl err \<Rightarrow> Inl err
               | Inr block \<Rightarrow>
                   structToEntries_loop C vt schema rest
                     (entries @ [Entry (Some block) None comments]) labels))
         else if tag_optional tag \<and> IsZero (field_v fld) \<and> \<not> schema then
           structToEntries_loop C vt schema rest entries labels
         else
           (case fieldToAttr C fld tag schema of
              Inl err \<Rightarrow> Inl err
            | Inr attr \<Rightarrow>
                structToEntries_loop C vt schema rest
                  (entries @ [Entry None (Some attr) comments]) labels))"
| "valueToBlock C v tag schema =
     (case structToEntries C v schema of
        Inl err \<Rightarrow> Inl err
      | Inr (body, labels) \<Rightarrow> Inr (Block (tag_name tag) labels body))"
| "sliceToBlocks C (RValue name mt mj d) tag =
     (case d of
        DSlice l \<Rightarrow> sliceToBlocks_loop C (elements l) tag []
      | _ \<Rightarrow> Inl (Panic ''reflect: call of reflect.Value.Len on a Value that is no slice''))"
| "sliceToBlocks_loop C [] tag blocks = Inr blocks"
| "sliceToBlocks_loop C (el # els) tag blocks =
     (case valueToBlock C el tag False of
        Inl err \<Rightarrow> Inl err
      | Inr block \<Rightarrow> sliceToBlocks_loop C els tag (blocks @ [block]))"
  by pat_completeness auto

lemma flattenFields_size:
  "flattenFields v = Inr flds \<Longrightarrow> size_list (size_prod (\<lambda>x. 0) size) flds + 2 \<le> size v"
  by (cases v) (auto simp: flattenFields_def split: rdata.splits option.splits)

termination structToEntries
  apply (relation "measure
     (\<lambda>x. case x of
        Inl (Inl (C, v, schema)) \<Rightarrow> 3 * size v
      | Inl (Inr (C, vt, schema, flds, entries, labels)) \<Rightarrow>
          3 * size_list (size_prod (\<lambda>x. 0) size) flds + 2
      | Inr (Inl (C, v, tag, schema)) \<Rightarrow> 3 * size v + 1
      | Inr (Inr (Inl (C, v, tag))) \<Rightarrow> 3 * size v + 1
      | Inr (Inr (Inr (C, els, tag, blocks))) \<Rightarrow> 3 * size_list size els + 2)")
  apply (auto simp: field_v_def elements_def dest!: flattenFields_size split: option.split)
  done

section \<open>The entry points\<close>

text \<open>\<^verbatim>\<open>marshalToAST\<close>, \<^verbatim>\<open>MarshalToAST\<close> and \<^verbatim>\<open>Marshal\<close>. The argument is an
  \<^verbatim>\<open>interface{}\<close>. After the two tests of the kind \<open>rv\<close> holds a struct; the zero
  \<^verbatim>\<open>reflect.Value\<close> does not pass them.\<close>

definition marshalToAST :: "collaborators \<Rightarrow> reflect_Value option \<Rightarrow> bool \<Rightarrow> AST result" where
  "marshalToAST C v schema =
     (let rv = v
      in if Kind_opt rv \<noteq> reflect_Ptr then
           Inl (Error (''expected a pointer to a struct, not '' @ format_T v))
         else
           (let rv' = Elem rv
            in if Kind_opt rv' \<noteq> reflect_Struct then
                 Inl (Error (''expected a pointer to a struct, not '' @ format_T v))
               else
                 (case rv' of
                    None \<Rightarrow> Inl (Panic ''reflect: call of reflect.Value.Type on zero Value'')
                  | Some s \<Rightarrow>
                      (case structToEntries C s schema of
                         Inl err \<Rightarrow> Inl err
                       | Inr (entries, labels) \<Rightarrow>
                           if length labels > 0 then
                             Inl (Error (''unexpected labels '' @ Join labels '', ''
                                         @ '' at top level''))
                           else Inr (AST entries)))))"

definition MarshalToAST :: "collaborators \<Rightarrow> reflect_Value option \<Rightarrow> AST result" where
  "MarshalToAST C v = marshalToAST C v False"

definition Marshal :: "collaborators \<Rightarrow> reflect_Value option \<Rightarrow> string result" where
  "Marshal C v =
     (case MarshalToAST C v of
        Inl err \<Rightarrow> Inl err
      | Inr ast \<Rightarrow> MarshalAST ast)"

section \<open>Properties\<close>

subsection \<open>Values for the statements\<close>

text \<open>A struct without methods whose Field Enumerator succeeds, a pointer to a value,
  and collaborators whose \<^verbatim>\<open>attrSchema\<close> gives the empty string for every type and
  whose \<^verbatim>\<open>sliceToBlockSchema\<close> fails.\<close>

definition struct_of :: "string \<Rightarrow> field list \<Rightarrow> reflect_Value" where
  "struct_of name flds = RValue name None None (DStruct None flds)"

definition pointer_to :: "reflect_Value \<Rightarrow> reflect_Value option" where
  "pointer_to v = Some (RValue (''*'' @ rv_name v) None None (DPtr (Some v)))"

definition example_collaborators :: collaborators where
  "example_collaborators =
     \<lparr>attrSchema = (\<lambda>t. Inr (Value_of_Str [])),
      sliceToBlockSchema = (\<lambda>t tag. Inl (Error ''no schema for the element type''))\<rparr>"

definition plain_tag :: "string \<Rightarrow> tag" where
  "plain_tag name =
     \<lparr>tag_name = name, tag_label = False, tag_block = False, tag_optional = False,
      tag_comments = []\<rparr>"

text \<open>The kinds that the switch of \<^verbatim>\<open>valueToValue\<close> has a case for.\<close>

definition encoded_kinds :: "Kind set" where
  "encoded_kinds = {reflect_String, reflect_Slice, reflect_Map, reflect_Float32,
     reflect_Float64, reflect_Int, reflect_Int8, reflect_Int16, reflect_Int32,
     reflect_Int64, reflect_Uint, reflect_Uint8, reflect_Uint16, reflect_Uint32,
     reflect_Uint64, reflect_Bool}"

subsection \<open>The entry point and one step of the loop over the fields\<close>

lemma marshalToAST_pointer_to_struct:
  "marshalToAST C (pointer_to (struct_of name flds)) schema =
     (case structToEntries_loop C (Type name reflect_Struct) schema flds [] [] of
        Inl err \<Rightarrow> Inl err
      | Inr (entries, labels) \<Rightarrow>
          if labels \<noteq> [] then
            Inl (Error (''unexpected labels '' @ Join labels '', '' @ '' at top level''))
          else Inr (AST entries))"
  by (simp add: marshalToAST_def pointer_to_def struct_of_def Kind_opt_def Elem_def Kind_of_def
      flattenFields_def Type_of_def split: sum.split)

declare structToEntries_loop.simps(2) [simp del]

lemma plain_attribute_data:
  assumes "\<not> tag_label t" "\<not> tag_block t" "\<not> (tag_optional t \<and> IsZero v)"
  shows "structToEntries_loop C vt False ((t, v) # rest) entries labels =
     (case valueToValue v of
        Inl err \<Rightarrow> Inl err
      | Inr val \<Rightarrow> structToEntries_loop C vt False rest
           (entries @ [Entry None (Some (Attribute (tag_name t) val)) (tag_comments t)]) labels)"
  using assms
  by (auto simp: structToEntries_loop.simps(2) Let_def parseTag_def field_t_def field_v_def
      fieldToAttr_def split: sum.split)

lemma Kind_of_data_DInt: "Kind_of_data (DInt sz i) \<in> encoded_kinds"
  by (cases sz) (simp_all add: encoded_kinds_def)

lemma Kind_of_data_DUint: "Kind_of_data (DUint sz u) \<in> encoded_kinds"
  by (cases sz) (simp_all add: encoded_kinds_def)

lemma Kind_of_data_DFloat: "Kind_of_data (DFloat sz f) \<in> encoded_kinds"
  by (cases sz) (simp_all add: encoded_kinds_def)

lemma valueToValue_default:
  assumes "Type_of v \<noteq> durationType"
      and "implements v textMarshalerInterface = None"
      and "implements v jsonMarshalerInterface = None"
      and "Kind_of v \<notin> encoded_kinds"
      and "Type_of v \<noteq> timeType"
  shows "valueToValue v = Inl (Panic (Type_String (Type_of v)))"
proof (cases v)
  case (RValue name mt mj d)
  have k: "Kind_of_data d \<notin> encoded_kinds"
    using assms(4) RValue by (simp add: Kind_of_def)
  have t: "Type name (Kind_of_data d) \<noteq> durationType" "Type name (Kind_of_data d) \<noteq> timeType"
    using assms(1,5) RValue by (simp_all add: Type_of_def Kind_of_def)
  have i: "implements (RValue name mt mj d) textMarshalerInterface = None"
          "implements (RValue name mt mj d) jsonMarshalerInterface = None"
    using assms(2,3) RValue by simp_all
  show ?thesis
  proof (cases d)
    case (DInt sz x) with k show ?thesis using Kind_of_data_DInt by blast
  next
    case (DUint sz x) with k show ?thesis using Kind_of_data_DUint by blast
  next
    case (DFloat sz x) with k show ?thesis using Kind_of_data_DFloat by blast
  next
    case (DBool b) with k show ?thesis by (simp add: encoded_kinds_def)
  next
    case (DString s) with k show ?thesis by (simp add: encoded_kinds_def)
  next
    case (DSlice l) with k show ?thesis by (simp add: encoded_kinds_def)
  next
    case (DMap m) with k show ?thesis by (simp add: encoded_kinds_def)
  next
    case (DStruct e fs) with t i RValue show ?thesis
      by (simp add: Type_of_def Kind_of_def)
  next
    case (DTime s z) with t i RValue show ?thesis
      by (simp add: Type_of_def Kind_of_def)
  next
    case (DPtr p) with t i RValue show ?thesis
      by (simp add: Type_of_def Kind_of_def)
  next
    case (DOther k z) with t i RValue show ?thesis
      by (simp add: Type_of_def Kind_of_def)
  qed
qed

subsection \<open>The loop over the fields, field by field\<close>

text \<open>What one turn of the loop adds for a field: the loop on that field alone, started
  with no entries and no labels. The loop over a list of fields is the sequence of
  these turns, and stops at the first one that fails.\<close>

definition field_entries ::
  "collaborators \<Rightarrow> reflect_Type \<Rightarrow> bool \<Rightarrow> field \<Rightarrow> (Entry list \<times> string list) result" where
  "field_entries C vt schema fld = structToEntries_loop C vt schema [fld] [] []"

declare structToEntries.simps [simp del]

lemma loop_Cons:
  "structToEntries_loop C vt schema (fld # rest) entries labels =
     (case field_entries C vt schema fld of
        Inl err \<Rightarrow> Inl err
      | Inr (es, ls) \<Rightarrow> structToEntries_loop C vt schema rest (entries @ es) (labels @ ls))"
  unfolding field_entries_def
  by (simp add: structToEntries_loop.simps(2) Let_def split: sum.split error.split)

lemma loop_acc:
  "structToEntries_loop C vt schema flds entries labels =
     (case structToEntries_loop C vt schema flds [] [] of
        Inl err \<Rightarrow> Inl err
      | Inr (es, ls) \<Rightarrow> Inr (entries @ es, labels @ ls))"
proof (induction flds arbitrary: entries labels)
  case Nil
  show ?case by simp
next
  case (Cons fld rest)
  show ?case
  proof (cases "field_entries C vt schema fld")
    case (Inl err)
    then show ?thesis by (simp add: loop_Cons)
  next
    case (Inr p)
    obtain es ls where p: "p = (es, ls)" by (cases p)
    show ?thesis
      using Inr p Cons.IH [of "entries @ es" "labels @ ls"] Cons.IH [of es ls]
      by (simp add: loop_Cons split: sum.split)
  qed
qed

lemma loop_append:
  "structToEntries_loop C vt schema (xs @ ys) entries labels =
     (case structToEntries_loop C vt schema xs entries labels of
        Inl err \<Rightarrow> Inl err
      | Inr (es, ls) \<Rightarrow> structToEntries_loop C vt schema ys es ls)"
proof (induction xs arbitrary: entries labels)
  case Nil
  show ?case by simp
next
  case (Cons fld rest)
  then show ?case
    by (simp add: loop_Cons split: sum.split)
qed

lemma structToEntries_struct_of:
  "structToEntries C (struct_of name flds) schema =
     structToEntries_loop C (Type name reflect_Struct) schema flds [] []"
  by (simp add: structToEntries.simps struct_of_def flattenFields_def Type_of_def Kind_of_def)

lemma omitted_field:
  assumes "field_entries C (Type name reflect_Struct) schema fld = Inr ([], [])"
  shows "structToEntries C (struct_of name (pre @ fld # post)) schema =
         structToEntries C (struct_of name (pre @ post)) schema"
  using assms
  by (simp add: structToEntries_struct_of loop_append [of _ _ _ pre] loop_Cons [of _ _ _ fld]
      split: sum.split)

subsection \<open>Evaluation\<close>

text \<open>The loop of \<^verbatim>\<open>fmtFrac\<close> at a numeral.\<close>

lemma fmtFrac_loop_numeral:
  "fmtFrac_loop (numeral k) v print buf =
     (let d = v mod 10; print' = (print \<or> d \<noteq> 0)
      in fmtFrac_loop (pred_numeral k) (v div 10) print' (if print' then digit d # buf else buf))"
  by (simp add: numeral_eq_Suc [of k])

lemmas text_simps =
  Duration_String_def fmtFrac_def fmtFrac_loop_numeral fmtInt_def digit_def Let_def
  quote_def quote_byte_def dquote_def backslash_def newline_def Number_String_def

subsection \<open>Unsupported types\<close>

text \<open>
  C5. A value that is no duration, has neither marshaling method, is of none of the
  kinds the switch has a case for and is no \<^verbatim>\<open>time.Time\<close> makes \<^verbatim>\<open>valueToValue\<close>
  panic with the name of its type: it does not return an error. \<^verbatim>\<open>MarshalToAST\<close>
  of a struct whose first field is such a value, encoded as a plain attribute, panics
  the same way.
\<close>

theorem unsupported_type_panics:
  assumes "Type_of v \<noteq> durationType"
      and "implements v textMarshalerInterface = None"
      and "implements v jsonMarshalerInterface = None"
      and "Kind_of v \<notin> encoded_kinds"
      and "Type_of v \<noteq> timeType"
  shows "valueToValue v = Inl (Panic (Type_String (Type_of v))) \<and>
         is_Panic (valueToValue v) \<and> \<not> is_Error (valueToValue v) \<and>
         (\<not> tag_label t \<and> \<not> tag_block t \<and> \<not> (tag_optional t \<and> IsZero v) \<longrightarrow>
            MarshalToAST C (pointer_to (struct_of name ((t, v) # rest)))
              = Inl (Panic (Type_String (Type_of v))))"
proof -
  have p: "valueToValue v = Inl (Panic (Type_String (Type_of v)))"
    using assms by (rule valueToValue_default)
  have "MarshalToAST C (pointer_to (struct_of name ((t, v) # rest)))
          = Inl (Panic (Type_String (Type_of v)))"
    if "\<not> tag_label t" "\<not> tag_block t" "\<not> (tag_optional t \<and> IsZero v)"
    by (simp only: MarshalToAST_def marshalToAST_pointer_to_struct plain_attribute_data [OF that] p
        sum.case)
  with p show ?thesis by simp
qed

theorem unsupported_type_panics_witness:
  "valueToValue (RValue ''chan int'' None None (DOther Chan True)) = Inl (Panic ''chan int'') \<and>
   MarshalToAST example_collaborators
     (pointer_to (struct_of ''Config''
        [(plain_tag ''c'', RValue ''chan int'' None None (DOther Chan True))]))
     = Inl (Panic ''chan int'')"
  using unsupported_type_panics [of "RValue ''chan int'' None None (DOther Chan True)"
      "plain_tag ''c''" example_collaborators "''Config''" "[]"]
  by (simp add: Type_of_def Kind_of_def durationType_def timeType_def implements_def
      encoded_kinds_def plain_tag_def)

subsection \<open>The top-level input\<close>

text \<open>
  C6. When the top-level input is not a pointer, or is a pointer to something that is
  not a struct (a nil pointer too), \<^verbatim>\<open>MarshalToAST\<close> returns the error "expected a
  pointer to a struct, not T", where T is the type of the input, and no AST; so does
  \<^verbatim>\<open>marshalToAST\<close> in either mode.
\<close>

theorem input_type_error:
  assumes "Kind_opt v \<noteq> reflect_Ptr \<or> Kind_opt (Elem v) \<noteq> reflect_Struct"
  shows "MarshalToAST C v = Inl (Error (''expected a pointer to a struct, not '' @ format_T v)) \<and>
         marshalToAST C v schema
           = Inl (Error (''expected a pointer to a struct, not '' @ format_T v))"
  using assms by (auto simp: MarshalToAST_def marshalToAST_def Let_def)

theorem input_type_error_witness:
  "MarshalToAST example_collaborators (Some (struct_of ''Config'' []))
     = Inl (Error ''expected a pointer to a struct, not Config'') \<and>
   MarshalToAST example_collaborators (pointer_to (RValue ''int'' None None (DInt I 5)))
     = Inl (Error ''expected a pointer to a struct, not *int'') \<and>
   MarshalToAST example_collaborators None
     = Inl (Error ''expected a pointer to a struct, not <nil>'') \<and>
   MarshalToAST example_collaborators (Some (RValue ''*Config'' None None (DPtr None)))
     = Inl (Error ''expected a pointer to a struct, not *Config'')"
  using input_type_error [of "Some (struct_of ''Config'' [])" example_collaborators False]
    input_type_error [of "pointer_to (RValue ''int'' None None (DInt I 5))"
      example_collaborators False]
    input_type_error [of None example_collaborators False]
    input_type_error [of "Some (RValue ''*Config'' None None (DPtr None))"
      example_collaborators False]
  by (simp add: Kind_opt_def Kind_of_def Elem_def struct_of_def pointer_to_def format_T_def
      Type_of_def)

subsection \<open>Integers\<close>

text \<open>
  C2. The int64 9007199254740993, which is 2 ^ 53 + 1, is encoded as the Number
  9007199254740992: \<^verbatim>\<open>big.NewFloat(0)\<close> has precision 53, which \<^verbatim>\<open>SetInt64\<close> keeps,
  so the 54-bit value is rounded. The same holds for the uint64 of that value.
\<close>

theorem int64_rounded_to_53_bits:
  "valueToValue (RValue ''int64'' None None (DInt I64 9007199254740993))
     = Inr (Value_of_Number (BigFloat 53 False 9007199254740992 0)) \<and>
   bigfloat_int (BigFloat 53 False 9007199254740992 0) = Some 9007199254740992 \<and>
   sint (9007199254740993 :: 64 word) = 9007199254740993 \<and>
   valueToValue (RValue ''uint64'' None None (DUint U64 9007199254740993))
     = Inr (Value_of_Number (BigFloat 53 False 9007199254740992 0))"
  by (simp add: Type_of_def Kind_of_def durationType_def implements_def NewFloat_def
      SetInt64_def SetUint64_def setBits64_def bigfloat_prec_def round_bits_def Let_def
      bigfloat_int_def)

subsection \<open>What single fields add\<close>

lemmas field_simps =
  field_entries_def structToEntries_loop.simps(2) Let_def parseTag_def field_t_def field_v_def
  fieldToAttr_def

lemma field_entries_optional_zero:
  assumes "tag_optional t" "\<not> tag_label t" "\<not> tag_block t" "IsZero v"
  shows "field_entries C vt False (t, v) = Inr ([], [])"
  using assms by (simp add: field_simps)

lemma field_entries_attrSchema:
  assumes "\<not> tag_label t" "\<not> tag_block t"
  shows "field_entries C vt True (t, v) =
     (case attrSchema C (Type_of v) of
        Inl err \<Rightarrow> Inl err
      | Inr val \<Rightarrow> Inr ([Entry None (Some (Attribute (tag_name t) val)) (tag_comments t)], []))"
  using assms by (simp add: field_simps split: sum.split)

lemma field_entries_schema_slice_error:
  assumes "tag_block t" "\<not> tag_label t" "Kind_of v = reflect_Slice"
      and "sliceToBlockSchema C (Type_of v) t = Inl (Error e)"
  shows "field_entries C vt True (t, v) = Inr ([], [])"
  using assms by (simp add: field_simps)

lemma field_entries_label:
  assumes "tag_label t"
  shows "field_entries C vt schema (t, v) = Inr ([], [if schema then tag_name t else String_of v])"
  using assms by (simp add: field_simps)

subsection \<open>Optional fields\<close>

text \<open>
  C3, as amended. The Struct Encoder asks first whether the tag marks a label, then
  whether it marks a block, and only then whether it marks the field optional. Take a
  field whose tag marks it optional and neither a label nor a block, and whose value
  is the zero value of its type. In data mode the encoding of the struct is the
  encoding of the struct without that field: no Entry is produced for it. In schema
  mode, whenever the encoding of the struct returns, \<^verbatim>\<open>attrSchema\<close> has returned a
  value for the type of the field and the entries hold the Attribute Entry of the field
  with that value, right after the entries of the fields before it.
\<close>

theorem optional_zero_field:
  assumes "tag_optional t" and "\<not> tag_label t" and "\<not> tag_block t" and "IsZero v"
  shows "structToEntries C (struct_of name (pre @ (t, v) # post)) False
           = structToEntries C (struct_of name (pre @ post)) False \<and>
         (\<forall>entries labels.
            structToEntries C (struct_of name (pre @ (t, v) # post)) True = Inr (entries, labels) \<longrightarrow>
            (\<exists>val es1 ls1 es2.
               attrSchema C (Type_of v) = Inr val \<and>
               structToEntries C (struct_of name pre) True = Inr (es1, ls1) \<and>
               entries = es1 @ Entry None (Some (Attribute (tag_name t) val)) (tag_comments t) # es2))"
proof (intro conjI allI impI)
  show "structToEntries C (struct_of name (pre @ (t, v) # post)) False
          = structToEntries C (struct_of name (pre @ post)) False"
    using assms by (intro omitted_field field_entries_optional_zero)
next
  fix entries labels
  let ?vt = "Type name reflect_Struct"
  assume ok: "structToEntries C (struct_of name (pre @ (t, v) # post)) True = Inr (entries, labels)"
  then obtain es1 ls1 where pre: "structToEntries_loop C ?vt True pre [] [] = Inr (es1, ls1)"
    and rest: "structToEntries_loop C ?vt True ((t, v) # post) es1 ls1 = Inr (entries, labels)"
    by (auto simp: structToEntries_struct_of loop_append [of _ _ _ pre] split: sum.splits)
  from rest obtain val where val: "attrSchema C (Type_of v) = Inr val"
    and post: "structToEntries_loop C ?vt True post
                 (es1 @ [Entry None (Some (Attribute (tag_name t) val)) (tag_comments t)]) ls1
               = Inr (entries, labels)"
    using assms(2,3)
    by (auto simp: loop_Cons [of _ _ _ "(t, v)"] field_entries_attrSchema split: sum.splits)
  from post obtain es2 where
    "entries = (es1 @ [Entry None (Some (Attribute (tag_name t) val)) (tag_comments t)]) @ es2"
    by (subst (asm) loop_acc) (auto split: sum.splits)
  with val pre show "\<exists>val es1 ls1 es2.
       attrSchema C (Type_of v) = Inr val \<and>
       structToEntries C (struct_of name pre) True = Inr (es1, ls1) \<and>
       entries = es1 @ Entry None (Some (Attribute (tag_name t) val)) (tag_comments t) # es2"
    by (auto simp: structToEntries_struct_of)
qed

theorem optional_zero_field_witness:
  "structToEntries example_collaborators
     (struct_of ''Config''
        [(plain_tag ''host'', RValue ''string'' None None (DString ''h'')),
         (\<lparr>tag_name = ''port'', tag_label = False, tag_block = False, tag_optional = True,
           tag_comments = []\<rparr>, RValue ''int'' None None (DInt I 0))]) False
     = Inr ([Entry None (Some (Attribute ''host'' (Value_of_Str ''h''))) []], []) \<and>
   structToEntries example_collaborators
     (struct_of ''Config''
        [(plain_tag ''host'', RValue ''string'' None None (DString ''h'')),
         (\<lparr>tag_name = ''port'', tag_label = False, tag_block = False, tag_optional = True,
           tag_comments = []\<rparr>, RValue ''int'' None None (DInt I 0))]) True
     = Inr ([Entry None (Some (Attribute ''host'' (Value_of_Str []))) [],
             Entry None (Some (Attribute ''port'' (Value_of_Str []))) []], [])"
  using optional_zero_field [of
      "\<lparr>tag_name = ''port'', tag_label = False, tag_block = False, tag_optional = True,
        tag_comments = []\<rparr>"
      "RValue ''int'' None None (DInt I 0)" example_collaborators "''Config''"
      "[(plain_tag ''host'', RValue ''string'' None None (DString ''h''))]" "[]"]
  by (simp add: structToEntries_struct_of structToEntries_loop.simps(2) Let_def parseTag_def
      field_t_def field_v_def fieldToAttr_def plain_tag_def example_collaborators_def
      Type_of_def Kind_of_def durationType_def implements_def)

text \<open>
  C3 as it was stated, for every field whose tag marks it optional, fails where the tag
  also marks a block or a label, since those rules come first: in data mode an
  optional block field holding the zero struct still gives a Block Entry, and in schema
  mode an optional label field gives a label and no Entry.
\<close>

theorem optional_zero_field_counterexample:
  "tag_optional \<lparr>tag_name = ''inner'', tag_label = False, tag_block = True, tag_optional = True,
                  tag_comments = []\<rparr> \<and>
   IsZero (struct_of ''Inner'' []) \<and>
   structToEntries example_collaborators
     (struct_of ''Config''
        [(\<lparr>tag_name = ''inner'', tag_label = False, tag_block = True, tag_optional = True,
           tag_comments = []\<rparr>, struct_of ''Inner'' [])]) False
     = Inr ([Entry (Some (Block ''inner'' [] [])) None []], []) \<and>
   tag_optional \<lparr>tag_name = ''name'', tag_label = True, tag_block = False, tag_optional = True,
                  tag_comments = []\<rparr> \<and>
   IsZero (RValue ''string'' None None (DString [])) \<and>
   structToEntries example_collaborators
     (struct_of ''Config''
        [(\<lparr>tag_name = ''name'', tag_label = True, tag_block = False, tag_optional = True,
           tag_comments = []\<rparr>, RValue ''string'' None None (DString []))]) True
     = Inr ([], [''name''])"
  by (simp add: structToEntries_struct_of structToEntries_loop.simps(2) Let_def parseTag_def
      field_t_def field_v_def Kind_of_def struct_of_def structToEntries.simps flattenFields_def
      Type_of_def)

subsection \<open>Schema mode and a slice of blocks\<close>

text \<open>
  C10. In schema mode, when \<^verbatim>\<open>sliceToBlockSchema\<close> returns an error for a field
  that is tagged as a block and holds a slice, the encoding of the struct is the
  encoding of the struct without that field: no Block Entry is added, no error is
  returned, and the other fields are encoded as they are without it. A struct with
  that field alone is encoded to no entries and no labels.
\<close>

theorem schema_slice_block_failure_omitted:
  assumes "tag_block t" and "\<not> tag_label t" and "Kind_of v = reflect_Slice"
      and "sliceToBlockSchema C (Type_of v) t = Inl (Error e)"
  shows "structToEntries C (struct_of name (pre @ (t, v) # post)) True
           = structToEntries C (struct_of name (pre @ post)) True \<and>
         structToEntries C (struct_of name [(t, v)]) True = Inr ([], [])"
proof
  have f: "field_entries C (Type name reflect_Struct) True (t, v) = Inr ([], [])"
    using assms by (rule field_entries_schema_slice_error)
  then show "structToEntries C (struct_of name (pre @ (t, v) # post)) True
           = structToEntries C (struct_of name (pre @ post)) True"
    by (rule omitted_field)
  show "structToEntries C (struct_of name [(t, v)]) True = Inr ([], [])"
    using f by (simp add: structToEntries_struct_of field_entries_def)
qed

theorem schema_slice_block_failure_omitted_witness:
  "structToEntries example_collaborators
     (struct_of ''Config''
        [(\<lparr>tag_name = ''server'', tag_label = False, tag_block = True, tag_optional = False,
           tag_comments = []\<rparr>, RValue ''[]Server'' None None (DSlice None)),
         (plain_tag ''host'', RValue ''string'' None None (DString ''h''))]) True
     = Inr ([Entry None (Some (Attribute ''host'' (Value_of_Str []))) []], [])"
  using schema_slice_block_failure_omitted [of
      "\<lparr>tag_name = ''server'', tag_label = False, tag_block = True, tag_optional = False,
        tag_comments = []\<rparr>"
      "RValue ''[]Server'' None None (DSlice None)" example_collaborators
      "''no schema for the element type''" "''Config''" "[]"
      "[(plain_tag ''host'', RValue ''string'' None None (DString ''h''))]"]
  by (simp add: structToEntries_struct_of structToEntries_loop.simps(2) Let_def parseTag_def
      field_t_def field_v_def fieldToAttr_def plain_tag_def example_collaborators_def
      Type_of_def Kind_of_def)

subsection \<open>Labels at the top level\<close>

lemma loop_labels_grow:
  assumes "structToEntries_loop C vt schema flds entries labels = Inr (es, ls)"
  shows "\<exists>more. ls = labels @ more"
  using assms by (subst (asm) loop_acc) (auto split: sum.splits)

lemma loop_label_field:
  assumes "structToEntries_loop C vt schema flds entries labels = Inr (es, ls)"
      and "f \<in> set flds" and "tag_label (field_t f)"
  shows "ls \<noteq> []"
  using assms
proof (induction flds arbitrary: entries labels)
  case Nil
  then show ?case by simp
next
  case (Cons fld rest)
  from Cons.prems(1) obtain es1 ls1 where
    fe: "field_entries C vt schema fld = Inr (es1, ls1)" and
    r: "structToEntries_loop C vt schema rest (entries @ es1) (labels @ ls1) = Inr (es, ls)"
    by (auto simp: loop_Cons split: sum.splits)
  show ?case
  proof (cases "f = fld")
    case True
    obtain t v where fld: "fld = (t, v)" by (cases fld)
    with True Cons.prems(3) have "tag_label t" by (simp add: field_t_def)
    then have "ls1 \<noteq> []"
      using fe fld by (auto simp: field_entries_label)
    moreover obtain more where "ls = (labels @ ls1) @ more"
      using loop_labels_grow [OF r] by blast
    ultimately show ?thesis by simp
  next
    case False
    with Cons.prems(2) have "f \<in> set rest" by simp
    then show ?thesis using Cons.IH [OF r] Cons.prems(3) by simp
  qed
qed

lemma structToEntries_Kind:
  assumes "structToEntries C s schema = Inr r"
  shows "Kind_of s = reflect_Struct"
  using assms
  by (cases s)
     (auto simp: structToEntries.simps flattenFields_def Kind_of_def
           split: sum.splits rdata.splits option.splits)

text \<open>
  C7. When the encoding of the struct that the top-level pointer points to returns a
  non-empty list of labels, \<^verbatim>\<open>marshalToAST\<close> returns the error "unexpected labels
  l1, l2, ... at top level" and no AST, in either mode; so does \<^verbatim>\<open>MarshalToAST\<close>.
\<close>

theorem top_level_labels_error:
  assumes "structToEntries C s schema = Inr (entries, labels)" and "labels \<noteq> []"
  shows "marshalToAST C (Some (RValue pname pmt pmj (DPtr (Some s)))) schema
           = Inl (Error (''unexpected labels '' @ Join labels '', '' @ '' at top level'')) \<and>
         (\<not> schema \<longrightarrow>
            MarshalToAST C (Some (RValue pname pmt pmj (DPtr (Some s))))
              = Inl (Error (''unexpected labels '' @ Join labels '', '' @ '' at top level'')))"
proof -
  have "Kind_of s = reflect_Struct"
    using assms(1) by (rule structToEntries_Kind)
  then have "marshalToAST C (Some (RValue pname pmt pmj (DPtr (Some s)))) schema
           = Inl (Error (''unexpected labels '' @ Join labels '', '' @ '' at top level''))"
    using assms by (simp add: marshalToAST_def Kind_opt_def Kind_of_def Elem_def)
  then show ?thesis by (cases schema) (simp_all add: MarshalToAST_def)
qed

theorem top_level_labels_error_witness:
  "structToEntries example_collaborators
     (struct_of ''Config''
        [(\<lparr>tag_name = ''name'', tag_label = True, tag_block = False, tag_optional = False,
           tag_comments = []\<rparr>, RValue ''string'' None None (DString ''a'')),
         (\<lparr>tag_name = ''kind'', tag_label = True, tag_block = False, tag_optional = False,
           tag_comments = []\<rparr>, RValue ''string'' None None (DString ''b''))]) False
     = Inr ([], [''a'', ''b'']) \<and>
   MarshalToAST example_collaborators
     (Some (RValue ''*Config'' None None (DPtr (Some
        (struct_of ''Config''
           [(\<lparr>tag_name = ''name'', tag_label = True, tag_block = False, tag_optional = False,
              tag_comments = []\<rparr>, RValue ''string'' None None (DString ''a'')),
            (\<lparr>tag_name = ''kind'', tag_label = True, tag_block = False, tag_optional = False,
              tag_comments = []\<rparr>, RValue ''string'' None None (DString ''b''))])))))
     = Inl (Error ''unexpected labels a, b at top level'')"
proof -
  have s: "structToEntries example_collaborators
     (struct_of ''Config''
        [(\<lparr>tag_name = ''name'', tag_label = True, tag_block = False, tag_optional = False,
           tag_comments = []\<rparr>, RValue ''string'' None None (DString ''a'')),
         (\<lparr>tag_name = ''kind'', tag_label = True, tag_block = False, tag_optional = False,
           tag_comments = []\<rparr>, RValue ''string'' None None (DString ''b''))]) False
     = Inr ([], [''a'', ''b''])"
    by (simp add: structToEntries_struct_of structToEntries_loop.simps(2) Let_def parseTag_def
        field_t_def field_v_def String_of_def)
  show ?thesis
    using s top_level_labels_error [OF s, of "''*Config''" None None] by simp
qed

text \<open>A struct with a field tagged as a label never gives an AST: its encoding fails, or
  it returns a label and \<^verbatim>\<open>marshalToAST\<close> returns the error above.\<close>

lemma label_field_no_AST:
  assumes "f \<in> set flds" and "tag_label (field_t f)"
  shows "marshalToAST C (pointer_to (struct_of name flds)) schema \<noteq> Inr ast"
proof (cases "structToEntries_loop C (Type name reflect_Struct) schema flds [] []")
  case (Inl err)
  then show ?thesis by (simp add: marshalToAST_pointer_to_struct)
next
  case (Inr p)
  obtain es ls where p: "p = (es, ls)" by (cases p)
  with Inr have "ls \<noteq> []" using loop_label_field assms by blast
  with Inr p show ?thesis by (simp add: marshalToAST_pointer_to_struct)
qed

subsection \<open>A struct with one attribute\<close>


lemma marshalAttribute_empty_List:
  "marshalAttribute indent (Attribute k (Value_of_List [])) = Inr (indent @ k @ '' = []'' @ newline)"
  by (simp add: marshalAttribute_def Value_of_List_def)

lemma marshalAttribute_empty_Map:
  "marshalAttribute indent (Attribute k (Value_of_Map []))
     = Inr (indent @ k @ '' = {'' @ newline @ indent @ ''}'' @ newline)"
  by (simp add: marshalAttribute_def Value_of_Map_def)

lemma Marshal_one_attribute:
  assumes "\<not> tag_label t" "\<not> tag_block t" "\<not> (tag_optional t \<and> IsZero v)"
  shows "Marshal C (pointer_to (struct_of name [(t, v)])) =
     (case valueToValue v of
        Inl err \<Rightarrow> Inl err
      | Inr val \<Rightarrow>
          (case marshalAttribute [] (Attribute (tag_name t) val) of
             Inl err \<Rightarrow> Inl err
           | Inr a \<Rightarrow> Inr (marshalComments [] (tag_comments t) @ a)))"
  by (simp add: Marshal_def MarshalToAST_def marshalToAST_pointer_to_struct
      plain_attribute_data [OF assms] MarshalAST_def MarshalASTToWriter_def split: sum.split)


lemma IsZero_Duration: "IsZero (RValue n mt mj (DInt sz d)) = (d = 0)"
  by simp



subsection \<open>Durations\<close>




subsection \<open>Empty slices and maps\<close>

lemma valueToValue_empty_slice:
  assumes "elements l = []"
  shows "valueToValue (RValue n None None (DSlice l)) = Inr (Value_of_List [])"
  using assms
  by (cases l) (simp_all add: Type_of_def Kind_of_def durationType_def implements_def elements_def)

lemma valueToValue_empty_map:
  assumes "MapKeys m = []"
  shows "valueToValue (RValue n None None (DMap m)) = Inr (Value_of_Map [])"
  using assms
  by (simp add: Type_of_def Kind_of_def durationType_def implements_def sort_Slice_def)

lemma Marshal_empty_slice:
  assumes "elements l = []" and "\<not> tag_label t" and "\<not> tag_block t"
      and "\<not> (tag_optional t \<and> l = None)"
  shows "Marshal C (pointer_to (struct_of name [(t, RValue n None None (DSlice l))]))
           = Inr (marshalComments [] (tag_comments t) @ tag_name t @ '' = []'' @ newline)"
proof -
  have z: "\<not> (tag_optional t \<and> IsZero (RValue n None None (DSlice l)))"
    using assms(4) by simp
  show ?thesis
    by (simp only: Marshal_one_attribute [OF assms(2,3) z] valueToValue_empty_slice [OF assms(1)]
        sum.case marshalAttribute_empty_List append_Nil append_assoc)
qed

lemma Marshal_empty_map:
  assumes "MapKeys m = []" and "\<not> tag_label t" and "\<not> tag_block t"
      and "\<not> (tag_optional t \<and> m = None)"
  shows "Marshal C (pointer_to (struct_of name [(t, RValue n None None (DMap m))]))
           = Inr (marshalComments [] (tag_comments t) @ tag_name t @ '' = {'' @ newline
                  @ ''}'' @ newline)"
proof -
  have z: "\<not> (tag_optional t \<and> IsZero (RValue n None None (DMap m)))"
    using assms(4) by simp
  show ?thesis
    by (simp only: Marshal_one_attribute [OF assms(2,3) z] valueToValue_empty_map [OF assms(1)]
        sum.case marshalAttribute_empty_Map append_Nil append_assoc)
qed

text \<open>
  C8, as amended. A slice without elements and a map without entries, nil or not, of a
  type that has neither marshaling method, are encoded as a Value with the presence
  flag set (\<open>HaveList\<close>, \<open>HaveMap\<close>) and an empty list. As a plain attribute in data
  mode (the field is not a label, not a block, and not an optional field holding nil)
  the field is not left out: a struct with that field alone is rendered as the comments
  of the field and, for the slice, the line \<^verbatim>\<open>x = []\<close>; for the map, the line
  \<^verbatim>\<open>x = {\<close> and the line \<^verbatim>\<open>}\<close>, since \<^verbatim>\<open>marshalMap\<close> ends the line after the
  opening brace.
\<close>

theorem empty_slice_and_map:
  assumes "elements l = []" and "MapKeys m = []" and "\<not> tag_label t" and "\<not> tag_block t"
  shows "valueToValue (RValue n None None (DSlice l)) = Inr (Value_of_List []) \<and>
         Value_HaveList (Value_of_List []) \<and>
         valueToValue (RValue n None None (DMap m)) = Inr (Value_of_Map []) \<and>
         Value_HaveMap (Value_of_Map []) \<and>
         (\<not> (tag_optional t \<and> l = None) \<longrightarrow>
            Marshal C (pointer_to (struct_of name [(t, RValue n None None (DSlice l))]))
              = Inr (marshalComments [] (tag_comments t) @ tag_name t @ '' = []'' @ newline)) \<and>
         (\<not> (tag_optional t \<and> m = None) \<longrightarrow>
            Marshal C (pointer_to (struct_of name [(t, RValue n None None (DMap m))]))
              = Inr (marshalComments [] (tag_comments t) @ tag_name t @ '' = {'' @ newline
                     @ ''}'' @ newline))"
  using valueToValue_empty_slice [OF assms(1)] valueToValue_empty_map [OF assms(2)]
    Marshal_empty_slice [OF assms(1,3,4)] Marshal_empty_map [OF assms(2,3,4)]
  by (simp add: Value_of_List_def Value_of_Map_def)

theorem empty_slice_and_map_witness:
  "Marshal example_collaborators
     (pointer_to (struct_of ''Config''
        [(plain_tag ''x'', RValue ''[]string'' None None (DSlice None))]))
     = Inr (''x = []'' @ newline) \<and>
   Marshal example_collaborators
     (pointer_to (struct_of ''Config''
        [(plain_tag ''x'', RValue ''map[string]int'' None None (DMap (Some [])))]))
     = Inr (''x = {'' @ newline @ ''}'' @ newline)"
  using empty_slice_and_map [of None "Some []" "plain_tag ''x''" "''[]string''"
      example_collaborators "''Config''"]
    empty_slice_and_map [of None "Some []" "plain_tag ''x''" "''map[string]int''"
      example_collaborators "''Config''"]
  by (simp add: elements_def MapKeys_def plain_tag_def marshalComments_def)

text \<open>C8 as it was stated: the empty map is not rendered as \<^verbatim>\<open>x = {}\<close>; and an empty
  slice of a type with a \<^verbatim>\<open>MarshalText\<close> method is encoded as the Str of that text,
  with no presence flag.\<close>

theorem empty_slice_and_map_counterexample:
  "Marshal example_collaborators
     (pointer_to (struct_of ''Config''
        [(plain_tag ''x'', RValue ''map[string]int'' None None (DMap (Some [])))]))
     \<noteq> Inr (''x = {}'' @ newline) \<and>
   valueToValue (RValue ''Tags'' (Some (Inr ''none'')) None (DSlice (Some [])))
     = Inr (Value_of_Str ''none'') \<and>
   \<not> Value_HaveList (Value_of_Str ''none'')"
  using Marshal_empty_map [of "Some []" "plain_tag ''x''" example_collaborators "''Config''"
      "''map[string]int''"]
  by (simp add: MapKeys_def plain_tag_def marshalComments_def newline_def Value_of_Str_def
      Type_of_def Kind_of_def durationType_def implements_def)

subsection \<open>Blank lines between entries\<close>







subsection \<open>Maps\<close>

lemma valueToValue_map_keys:
  assumes "valueToValue_map m keys entries = Inr es"
  shows "map MapEntry_Key es = map MapEntry_Key entries @ map (\<lambda>k. Value_of_Str (String_of k)) keys"
  using assms
proof (induction keys arbitrary: entries)
  case Nil
  then show ?case by simp
next
  case (Cons key keys)
  from Cons.prems obtain x val where
    "valueToValue_map m keys (entries @ [MapEntry (Value_of_Str (String_of key)) val []]) = Inr es"
    by (auto split: option.splits sum.splits)
  from Cons.IH [OF this] show ?case by simp
qed

lemma valueToValue_map_cong:
  assumes "\<And>k. k \<in> set keys \<Longrightarrow> MapIndex m k = MapIndex m' k"
  shows "valueToValue_map m keys entries = valueToValue_map m' keys entries"
  using assms
proof (induction keys arbitrary: entries)
  case Nil
  show ?case by simp
next
  case (Cons key keys)
  then show ?case by (simp split: option.split sum.split)
qed

lemma valueToValue_Map:
  "valueToValue (RValue n None None (DMap m)) =
     (case valueToValue_map m (sort_Slice (MapKeys m)) [] of
        Inl err \<Rightarrow> Inl err
      | Inr entries \<Rightarrow> Inr (Value_of_Map entries))"
  by (simp add: Type_of_def Kind_of_def durationType_def implements_def)

lemma map_sort_Slice: "map String_of (sort_Slice keys) = sort (map String_of keys)"
  unfolding sort_Slice_def
  by (rule properties_for_sort [symmetric]) simp_all

lemma sort_Slice_permutation:
  assumes "mset keys' = mset keys" and "distinct (map String_of keys)"
  shows "sort_Slice keys' = sort_Slice keys"
  unfolding sort_Slice_def
proof (rule sort_key_inj_key_eq)
  show "mset keys' = mset (sort_key String_of keys)"
    using assms(1) by simp
  have "inj_on String_of (set keys)"
    using assms(2) by (simp add: distinct_map)
  moreover have "set keys' = set keys"
    using assms(1) by (rule mset_eq_setD)
  ultimately show "inj_on String_of (set keys')"
    by simp
  show "sorted (map String_of (sort_key String_of keys))"
    by simp
qed

lemma MapIndex_permutation:
  assumes "mset kvs' = mset kvs" and "distinct (map fst kvs)"
  shows "MapIndex (Some kvs') k = MapIndex (Some kvs) k"
proof -
  have "mset (map fst kvs') = mset (map fst kvs)"
    using assms(1) by simp
  then have "distinct (map fst kvs')"
    using assms(2) mset_eq_imp_distinct_iff by blast
  moreover have "set kvs' = set kvs"
    using assms(1) by (rule mset_eq_setD)
  ultimately have "map_of kvs' = map_of kvs"
    using assms(2) by (simp add: map_of_inject_set)
  then show ?thesis by (simp add: MapIndex_def)
qed

text \<open>The map \<^verbatim>\<open>{"b": 1, "a": 2}\<close> of type \<^verbatim>\<open>map[string]int\<close>, with the key b first in
  the order of \<^verbatim>\<open>MapKeys\<close>.\<close>

definition example_entries :: "(reflect_Value \<times> reflect_Value) list" where
  "example_entries =
     [(RValue ''string'' None None (DString ''b''), RValue ''int'' None None (DInt I 1)),
      (RValue ''string'' None None (DString ''a''), RValue ''int'' None None (DInt I 2))]"

lemma sort_Slice_example:
  "sort_Slice (MapKeys (Some example_entries))
     = [RValue ''string'' None None (DString ''a''), RValue ''string'' None None (DString ''b'')]"
  by (simp add: sort_Slice_def String_of_def MapKeys_def example_entries_def)

lemma valueToValue_example:
  "valueToValue (RValue ''map[string]int'' None None (DMap (Some example_entries)))
     = Inr (Value_of_Map
         [MapEntry (Value_of_Str ''a'') (Value_of_Number (BigFloat 53 False 2 0)) [],
          MapEntry (Value_of_Str ''b'') (Value_of_Number (BigFloat 53 False 1 0)) []])"
  by (simp only: valueToValue_Map sort_Slice_example)
     (simp add: MapIndex_def Type_of_def Kind_of_def durationType_def implements_def NewFloat_def
        SetInt64_def setBits64_def bigfloat_prec_def round_bits_def String_of_def
        example_entries_def)

lemma Marshal_example:
  "Marshal C (pointer_to (struct_of ''Config''
      [(plain_tag ''m'', RValue ''map[string]int'' None None (DMap (Some example_entries)))]))
     = Inr (''m = {'' @ newline
            @ ''  '' @ [dquote] @ ''a'' @ [dquote] @ '': 2,'' @ newline
            @ ''  '' @ [dquote] @ ''b'' @ [dquote] @ '': 1,'' @ newline
            @ ''}'' @ newline)"
proof -
  have t: "\<not> tag_label (plain_tag ''m'')" "\<not> tag_block (plain_tag ''m'')"
    "\<not> (tag_optional (plain_tag ''m'')
        \<and> IsZero (RValue ''map[string]int'' None None (DMap (Some example_entries))))"
    by (simp_all add: plain_tag_def)
  show ?thesis
    by (simp only: Marshal_one_attribute [OF t] valueToValue_example sum.case)
       (simp add: marshalAttribute_def Value_of_Map_def Value_of_Str_def Value_of_Number_def
          plain_tag_def marshalComments_def text_simps)
qed

text \<open>
  C4, as amended. Take a map whose type has neither marshaling method. Whenever
  \<^verbatim>\<open>valueToValue\<close> returns a Value for it, the presence flag \<open>HaveMap\<close> is set and
  the keys of the entries are the Str values of the strings of the map's keys, sorted
  ascending. The result does not depend on the order in which \<^verbatim>\<open>MapKeys\<close> returns
  the keys: two orders of the same keys and values (the keys of a Go map are distinct,
  and the key of a string-keyed map is its own string) give the same result, be it a
  Value, an error or a panic.
\<close>

theorem map_entries_sorted:
  "(\<forall>val. valueToValue (RValue n None None (DMap m)) = Inr val \<longrightarrow>
      Value_HaveMap val \<and>
      map MapEntry_Key (Value_Map val) = map Value_of_Str (sort (map String_of (MapKeys m))) \<and>
      sorted (map String_of (sort_Slice (MapKeys m)))) \<and>
   (distinct (map (String_of \<circ> fst) kvs) \<and> mset kvs' = mset kvs \<longrightarrow>
      valueToValue (RValue n None None (DMap (Some kvs')))
        = valueToValue (RValue n None None (DMap (Some kvs))))"
proof (intro conjI allI impI)
  fix val
  assume "valueToValue (RValue n None None (DMap m)) = Inr val"
  then have "(case valueToValue_map m (sort_Slice (MapKeys m)) [] of
                Inl err \<Rightarrow> Inl err
              | Inr entries \<Rightarrow> Inr (Value_of_Map entries)) = Inr val"
    by (simp only: valueToValue_Map)
  then obtain es where es: "valueToValue_map m (sort_Slice (MapKeys m)) [] = Inr es"
    and val: "val = Value_of_Map es"
    by (auto split: sum.splits)
  show "Value_HaveMap val"
    using val by (simp add: Value_of_Map_def)
  have "map MapEntry_Key es = map (\<lambda>k. Value_of_Str (String_of k)) (sort_Slice (MapKeys m))"
    using valueToValue_map_keys [OF es] by simp
  also have "\<dots> = map Value_of_Str (map String_of (sort_Slice (MapKeys m)))"
    by simp
  finally show "map MapEntry_Key (Value_Map val)
      = map Value_of_Str (sort (map String_of (MapKeys m)))"
    using val by (simp add: map_sort_Slice Value_of_Map_def)
  show "sorted (map String_of (sort_Slice (MapKeys m)))"
    by (simp add: sort_Slice_def)
next
  assume a: "distinct (map (String_of \<circ> fst) kvs) \<and> mset kvs' = mset kvs"
  then have d: "distinct (map String_of (map fst kvs))" and p: "mset kvs' = mset kvs"
    by simp_all
  have dk: "distinct (map fst kvs)"
    using d distinct_map [of String_of "map fst kvs"] by blast
  have "mset (map fst kvs') = mset (map fst kvs)"
    using p by simp
  then have s: "sort_Slice (MapKeys (Some kvs')) = sort_Slice (MapKeys (Some kvs))"
    using d by (simp add: MapKeys_def sort_Slice_permutation)
  have "valueToValue_map (Some kvs') keys [] = valueToValue_map (Some kvs) keys []" for keys
    by (rule valueToValue_map_cong) (rule MapIndex_permutation [OF p dk])
  with s show "valueToValue (RValue n None None (DMap (Some kvs')))
        = valueToValue (RValue n None None (DMap (Some kvs)))"
    by (simp only: valueToValue_Map)
qed

theorem map_entries_sorted_witness:
  "valueToValue (RValue ''map[string]int'' None None (DMap (Some example_entries)))
     = Inr (Value_of_Map
         [MapEntry (Value_of_Str ''a'') (Value_of_Number (BigFloat 53 False 2 0)) [],
          MapEntry (Value_of_Str ''b'') (Value_of_Number (BigFloat 53 False 1 0)) []]) \<and>
   valueToValue (RValue ''map[string]int'' None None (DMap (Some (rev example_entries))))
     = valueToValue (RValue ''map[string]int'' None None (DMap (Some example_entries))) \<and>
   Marshal example_collaborators (pointer_to (struct_of ''Config''
      [(plain_tag ''m'', RValue ''map[string]int'' None None (DMap (Some example_entries)))]))
     = Inr (''m = {'' @ newline
            @ ''  '' @ [dquote] @ ''a'' @ [dquote] @ '': 2,'' @ newline
            @ ''  '' @ [dquote] @ ''b'' @ [dquote] @ '': 1,'' @ newline
            @ ''}'' @ newline)"
proof -
  have d: "distinct (map (String_of \<circ> fst) example_entries)"
    by (simp add: example_entries_def String_of_def)
  have "valueToValue (RValue ''map[string]int'' None None (DMap (Some (rev example_entries))))
     = valueToValue (RValue ''map[string]int'' None None (DMap (Some example_entries)))"
    using map_entries_sorted [of "''map[string]int''" "Some example_entries" example_entries
        "rev example_entries"] d
    by simp
  then show ?thesis
    by (simp only: valueToValue_example Marshal_example simp_thms)
qed

text \<open>C4 as it was stated, for every string-keyed map: a map of a type with a
  \<^verbatim>\<open>MarshalText\<close> method is encoded as the Str of that text, with no entries and no
  presence flag; and the encoding of a map with a value of an unsupported type panics.\<close>

theorem map_entries_sorted_counterexample:
  "valueToValue (RValue ''Labels'' (Some (Inr ''b=1,a=2'')) None (DMap (Some example_entries)))
     = Inr (Value_of_Str ''b=1,a=2'') \<and>
   Value_Map (Value_of_Str ''b=1,a=2'') = [] \<and>
   \<not> Value_HaveMap (Value_of_Str ''b=1,a=2'') \<and>
   valueToValue (RValue ''map[string]chan int'' None None
      (DMap (Some [(RValue ''string'' None None (DString ''a''),
                    RValue ''chan int'' None None (DOther Chan False))])))
     = Inl (Panic ''chan int'')"
  by (simp add: Type_of_def Kind_of_def durationType_def timeType_def implements_def
      Value_of_Str_def sort_Slice_def MapKeys_def MapIndex_def)

end
